theory Spec2Isabelle
  imports Main
begin

section \<open>Text and the personal-number pattern\<close>

text \<open>
  A Python \<open>str\<close> is modelled as a \<open>string\<close>, one \<open>char\<close> per code point; the
  model covers text whose code points are below 256 (the labels of the program are
  Latin-1: \<open>CHR 0xF6\<close> is o-umlaut, \<open>CHR 0xE5\<close> a-ring, \<open>CHR 0xD6\<close> O-umlaut).
  In that range the class \<open>\d\<close> of Python's \<open>re\<close> is exactly the ten ASCII digits.
\<close>

definition space :: char where
  "space = CHR 0x20"

definition newline :: char where
  "newline = CHR 0x0A"

definition dash :: string where
  "dash = ''-''"

text \<open>
  The pattern \<open>r'^\d{6}-\d{4}$'\<close> is a sequence of regular-expression items; a
  counted repetition \<open>x{n}\<close> is \<open>n\<close> copies of \<open>x\<close>. Without the MULTILINE flag,
  \<open>^\<close> matches at position 0 only and \<open>$\<close> matches at the end of the text and
  just before a line feed that is the last character of the text.
\<close>

datatype rx = Bol | Eol | Digit | Lit char

definition isdigit :: "char \<Rightarrow> bool" where
  "isdigit c = (c \<in> set ''0123456789'')"

text \<open>The matcher's position: whether it is at position 0, and the text left to read.\<close>

fun rx_step :: "rx \<Rightarrow> bool \<times> string \<Rightarrow> (bool \<times> string) option" where
  "rx_step Bol (at0, cs) = (if at0 then Some (at0, cs) else None)"
| "rx_step Eol (at0, cs) = (if cs = [] \<or> cs = [newline] then Some (at0, cs) else None)"
| "rx_step Digit (at0, cs) =
     (case cs of [] \<Rightarrow> None | c # cs' \<Rightarrow> if isdigit c then Some (False, cs') else None)"
| "rx_step (Lit x) (at0, cs) =
     (case cs of [] \<Rightarrow> None | c # cs' \<Rightarrow> if c = x then Some (False, cs') else None)"

fun rx_run :: "rx list \<Rightarrow> bool \<times> string \<Rightarrow> (bool \<times> string) option" where
  "rx_run [] st = Some st"
| "rx_run (r # rs) st = (case rx_step r st of None \<Rightarrow> None | Some st' \<Rightarrow> rx_run rs st')"

text \<open>\<open>re.match\<close> tries the pattern at position 0 only; \<open>bool(...)\<close> of its result.\<close>

definition re_match :: "rx list \<Rightarrow> string \<Rightarrow> bool" where
  "re_match p s = (case rx_run p (True, s) of None \<Rightarrow> False | Some _ \<Rightarrow> True)"

definition pattern :: "rx list" where
  "pattern = Bol # replicate 6 Digit @ Lit (CHR ''-'') # replicate 4 Digit @ [Eol]"

text \<open>\<open>ADDPatient.check_format_personal_nr\<close> and \<open>Display.check_format_personal_nr\<close>
  (the two bodies are the same).\<close>

definition check_format_personal_nr :: "string \<Rightarrow> bool" where
  "check_format_personal_nr input_string = re_match pattern input_string"

text \<open>\<open>str.split(sep)\<close> for a one-character separator: \<open>n\<close> separators give
  \<open>n + 1\<close> fields, so the result is never empty.\<close>

fun split_sep :: "char \<Rightarrow> string \<Rightarrow> string list" where
  "split_sep sep [] = [[]]"
| "split_sep sep (c # cs) =
     (if c = sep then [] # split_sep sep cs
      else (case split_sep sep cs of [] \<Rightarrow> [[c]] | w # ws \<Rightarrow> (c # w) # ws))"

section \<open>Data frames and the CSV files\<close>

text \<open>
  A pandas data frame is its column labels and its rows, each row with its index label.
  Every cell is text: the model covers cells that \<open>read_csv\<close> returns as the text
  \<open>to_csv\<close> wrote (non-empty text that pandas does not read as a number or as a
  missing value). A file is the list of its lines, each line the list of its fields, the
  first line the header; \<open>None\<close> is a file that does not exist and \<open>Some []\<close> a file
  of zero bytes.
\<close>

record dataframe =
  columns :: "string list"
  rows :: "(nat \<times> string list) list"

type_synonym csv = "string list list"

datatype exn =
    EmptyDataError | FileNotFoundError | ValueError | KeyError | TypeError
  | IndexError | AttributeError

datatype category = SAMSA | TES | KORTTID

definition header :: "string list" where
  "header = [''Personnummer'', ''F'' @ [CHR 0xF6] @ ''rnamn'', ''Efternamn'',
             ''Omr'' @ [CHR 0xE5] @ ''de'', ''Inskriven'', ''Typ'', ''Anteckning'']"

definition read_csv :: "csv option \<Rightarrow> exn + dataframe" where
  "read_csv f =
     (case f of
        None \<Rightarrow> Inl FileNotFoundError
      | Some [] \<Rightarrow> Inl EmptyDataError
      | Some (h # rs) \<Rightarrow>
          if h = [] then Inl EmptyDataError
          else Inr \<lparr>columns = h, rows = zip [0..<length rs] rs\<rparr>)"

text \<open>\<open>df.to_csv(path, index=False)\<close>: the header and the rows, without the index.\<close>

definition to_csv :: "dataframe \<Rightarrow> csv" where
  "to_csv df = columns df # map snd (rows df)"

text \<open>The position of a column label (\<open>columns.get_loc\<close>).\<close>

fun get_loc :: "string \<Rightarrow> string list \<Rightarrow> nat option" where
  "get_loc c [] = None"
| "get_loc c (x # xs) = (if x = c then Some 0 else map_option Suc (get_loc c xs))"

text \<open>The cell of a row at a position; a position the row does not have is a missing
  value, written as the empty text.\<close>

definition cell :: "string list \<Rightarrow> nat \<Rightarrow> string" where
  "cell cs k = (if k < length cs then cs ! k else [])"

text \<open>\<open>df[df[col] == v]\<close>, with \<open>k\<close> the position of \<open>col\<close>.\<close>

definition select_eq :: "dataframe \<Rightarrow> nat \<Rightarrow> string \<Rightarrow> (nat \<times> string list) list" where
  "select_eq df k v = filter (\<lambda>r. cell (snd r) k = v) (rows df)"

text \<open>\<open>df.drop(labels)\<close>: every row whose index label is in \<open>labels\<close> is left out.\<close>

definition drop_labels :: "nat list \<Rightarrow> dataframe \<Rightarrow> dataframe" where
  "drop_labels ls df = df\<lparr>rows := filter (\<lambda>r. fst r \<notin> set ls) (rows df)\<rparr>"

text \<open>\<open>df.reset_index(drop=True)\<close>: the rows are numbered again from 0.\<close>

definition reset_index :: "dataframe \<Rightarrow> dataframe" where
  "reset_index df = df\<lparr>rows := zip [0..<length (rows df)] (map snd (rows df))\<rparr>"

text \<open>\<open>pd.concat([a, b], axis=0)\<close>: the columns of \<open>a\<close>, then those of \<open>b\<close> that
  \<open>a\<close> does not have; each row keeps its label and takes its cells by column label, a
  missing value where its frame has no such column.\<close>

definition reindex_row :: "string list \<Rightarrow> string list \<Rightarrow> string list \<Rightarrow> string list" where
  "reindex_row old new cs =
     map (\<lambda>c. case get_loc c old of None \<Rightarrow> [] | Some k \<Rightarrow> cell cs k) new"

definition concat_frames :: "dataframe \<Rightarrow> dataframe \<Rightarrow> dataframe" where
  "concat_frames a b =
     (let cols = columns a @ filter (\<lambda>c. c \<notin> set (columns a)) (columns b)
      in \<lparr>columns = cols,
          rows = map (\<lambda>r. (fst r, reindex_row (columns a) cols (snd r))) (rows a) @
                 map (\<lambda>r. (fst r, reindex_row (columns b) cols (snd r))) (rows b)\<rparr>)"

text \<open>\<open>df.at[label, col] = v\<close>: the cell of every row with that label; a column the
  frame does not have is added (pandas falls back to \<open>loc\<close>, which enlarges).\<close>

definition set_at :: "dataframe \<Rightarrow> nat \<Rightarrow> string \<Rightarrow> string \<Rightarrow> dataframe" where
  "set_at df label col v =
     (case get_loc col (columns df) of
        Some k \<Rightarrow>
          df\<lparr>rows := map (\<lambda>r. if fst r = label then (fst r, (snd r)[k := v]) else r) (rows df)\<rparr>
      | None \<Rightarrow>
          \<lparr>columns = columns df @ [col],
           rows = map (\<lambda>r. (fst r, snd r @ [if fst r = label then v else []])) (rows df)\<rparr>)"

text \<open>\<open>df.iat[row, column] = v\<close> for positions inside the frame.\<close>

definition set_iat :: "dataframe \<Rightarrow> nat \<Rightarrow> nat \<Rightarrow> string \<Rightarrow> dataframe" where
  "set_iat df i j v =
     df\<lparr>rows := (rows df)[i := (fst (rows df ! i), (snd (rows df ! i))[j := v])]\<rparr>"

text \<open>The items of a patient combo box: \<open>[f"{p[1]} {p[2]} {p[3]}" for p in
  df.itertuples()]\<close>. A tuple is the index label and then the cells, so \<open>p[3]\<close>
  raises IndexError in a frame of fewer than three columns that has a row.\<close>

definition combo_items :: "dataframe \<Rightarrow> exn + string list" where
  "combo_items df =
     (if rows df = [] then Inr []
      else if length (columns df) < 3 then Inl IndexError
      else Inr (map (\<lambda>r. cell (snd r) 0 @ [space] @ cell (snd r) 1 @ [space] @ cell (snd r) 2)
                  (rows df)))"

section \<open>The shared store and its observers\<close>

text \<open>
  The state of the program: the three files, the three frames of \<open>Data\<close>, and what
  the observers show (the patient combo boxes of \<open>DeletePatient\<close> and of
  \<open>UpdateNote\<close>, the note fields of \<open>UpdateNote\<close>, the grids of \<open>Display\<close>, the
  text box of \<open>UpdateSamsa\<close>). \<open>calls\<close> records every observer update that was
  entered, in order. The state is that of the running program: the nine observers are
  registered. What Qt does inside a widget (signals sent while a widget is filled) is not
  modelled.
\<close>

datatype observer = Sd | Sc | Display_table

record state =
  files :: "category \<Rightarrow> csv option"
  dfs :: "category \<Rightarrow> dataframe option"
  calls :: "(category \<times> observer) list"
  patient_d :: "category \<Rightarrow> string list"
  patient_c :: "category \<Rightarrow> string list"
  note_c :: "category \<Rightarrow> string"
  table :: "category \<Rightarrow> string list list"
  textbox :: "(string list \<times> string list) option"

text \<open>An action returns the exception that left it, if any, and the state it reached.\<close>

type_synonym action = "state \<Rightarrow> exn option \<times> state"

definition seq :: "action \<Rightarrow> action \<Rightarrow> action" where
  "seq f g s = (case f s of (None, s') \<Rightarrow> g s' | (Some e, s') \<Rightarrow> (Some e, s'))"

text \<open>\<open>try: body except e: handler\<close>.\<close>

definition try_except :: "action \<Rightarrow> exn \<Rightarrow> action \<Rightarrow> action" where
  "try_except body e handler s =
     (case body s of
        (None, s') \<Rightarrow> (None, s')
      | (Some e', s') \<Rightarrow> if e' = e then handler s' else (Some e', s'))"

definition pass :: action where
  "pass s = (None, s)"

text \<open>\<open>DeletePatient.update_sd\<close>, \<open>update_td\<close>, \<open>update_kd\<close>.\<close>

definition update_sd :: "category \<Rightarrow> action" where
  "update_sd c s =
     (let s0 = s\<lparr>calls := calls s @ [(c, Sd)]\<rparr> in
      case read_csv (files s0 c) of
        Inl e \<Rightarrow> (Some e, s0)
      | Inr df \<Rightarrow>
          (let s1 = s0\<lparr>dfs := (dfs s0)(c := Some df)\<rparr> in
           case combo_items df of
             Inl e \<Rightarrow> (Some e, s1\<lparr>patient_d := (patient_d s1)(c := [])\<rparr>)
           | Inr items \<Rightarrow> (None, s1\<lparr>patient_d := (patient_d s1)(c := items)\<rparr>)))"

text \<open>\<open>UpdateNote.update_sc\<close>, \<open>update_tc\<close>, \<open>update_kc\<close>. The current text of
  a combo box that was just filled is its first item, and the empty text when it has no
  item; \<open>Series.item()\<close> raises ValueError unless the series has exactly one element.\<close>

definition update_sc :: "category \<Rightarrow> action" where
  "update_sc c s =
     (let s0 = s\<lparr>calls := calls s @ [(c, Sc)]\<rparr> in
      case read_csv (files s0 c) of
        Inl e \<Rightarrow> (Some e, s0)
      | Inr df \<Rightarrow>
          (let s1 = s0\<lparr>dfs := (dfs s0)(c := Some df)\<rparr> in
           case combo_items df of
             Inl e \<Rightarrow> (Some e, s1\<lparr>patient_c := (patient_c s1)(c := [])\<rparr>)
           | Inr items \<Rightarrow>
               (let s2 = s1\<lparr>patient_c := (patient_c s1)(c := items)\<rparr>;
                    personal_nr = take 11 (case items of [] \<Rightarrow> [] | x # _ \<Rightarrow> x)
                in case get_loc ''Personnummer'' (columns df) of
                     None \<Rightarrow> (Some KeyError, s2)
                   | Some k \<Rightarrow>
                       (case get_loc ''Anteckning'' (columns df) of
                          None \<Rightarrow> (Some KeyError, s2)
                        | Some n \<Rightarrow>
                            (case select_eq df k personal_nr of
                               [r] \<Rightarrow> (None, s2\<lparr>note_c := (note_c s2)(c := cell (snd r) n)\<rparr>)
                             | _ \<Rightarrow> (Some ValueError, s2))))))"

text \<open>\<open>Display.update_samsa_table\<close>, \<open>update_tes_table\<close>, \<open>update_korttid_table\<close>.\<close>

definition update_table :: "category \<Rightarrow> action" where
  "update_table c s =
     (let s0 = s\<lparr>calls := calls s @ [(c, Display_table)], table := (table s)(c := [])\<rparr> in
      case read_csv (files s0 c) of
        Inl e \<Rightarrow> (Some e, s0)
      | Inr df \<Rightarrow>
          (None, s0\<lparr>dfs := (dfs s0)(c := Some df), table := (table s0)(c := map snd (rows df))\<rparr>))"

text \<open>\<open>Data.notify_sa_observer\<close>, \<open>notify_te_observer\<close>, \<open>notify_ko_observer\<close>.\<close>

definition notify_observer :: "category \<Rightarrow> action" where
  "notify_observer c = seq (update_sd c) (seq (update_sc c) (update_table c))"

text \<open>\<open>Data.when_change_has_been_made_directly_on_samsa_table\<close> and its two siblings.\<close>

definition when_change_has_been_made_directly_on_table :: "category \<Rightarrow> action" where
  "when_change_has_been_made_directly_on_table c = seq (update_sd c) (update_sc c)"

text \<open>\<open>Data.save_to_samsa_csv\<close>, \<open>save_to_tes_csv\<close>, \<open>save_to_korttid_csv\<close>.\<close>

definition save_to_csv :: "category \<Rightarrow> bool \<Rightarrow> action" where
  "save_to_csv c skip_update s =
     (case dfs s c of
        None \<Rightarrow> (Some AttributeError, s)
      | Some df \<Rightarrow>
          (let s1 = s\<lparr>files := (files s)(c := Some (to_csv df))\<rparr> in
           if skip_update then when_change_has_been_made_directly_on_table c s1
           else notify_observer c s1))"

section \<open>Bootstrap: \<open>Window.create_files\<close>\<close>

text \<open>A file that does not exist is created with the header line alone.\<close>

definition create_file :: "category \<Rightarrow> state \<Rightarrow> state" where
  "create_file c s =
     (case files s c of
        None \<Rightarrow> s\<lparr>files := (files s)(c := Some (to_csv \<lparr>columns = header, rows = []\<rparr>))\<rparr>
      | Some _ \<Rightarrow> s)"

definition create_files :: "state \<Rightarrow> state" where
  "create_files s = create_file KORTTID (create_file TES (create_file SAMSA s))"

section \<open>Adding a patient: \<open>ADDPatient\<close>\<close>

text \<open>The tuple that \<open>connect_button\<close> passes to \<open>button_clicked\<close>, from the texts
  of the seven input widgets.\<close>

definition connect_button ::
  "string \<Rightarrow> string \<Rightarrow> string \<Rightarrow> string \<Rightarrow> string \<Rightarrow> string \<Rightarrow> string \<Rightarrow> string list" where
  "connect_button personal_nr first_text last_text area enrolled type_of_entry note =
     [personal_nr,
      if first_text \<noteq> [] then first_text else dash,
      if last_text \<noteq> [] then last_text else dash,
      area, enrolled, type_of_entry,
      if note \<noteq> [] then note else dash]"

text \<open>The cases of \<open>match values_dict["Typ"]\<close>.\<close>

definition entry_category :: "string \<Rightarrow> category option" where
  "entry_category t =
     (if t = ''SAMSA'' then Some SAMSA
      else if t = ''TES'' then Some TES
      else if t = ''KORTTID'' then Some KORTTID
      else None)"

text \<open>\<open>pd.DataFrame(values_dict, index=[n])\<close>: one row under the seven labels.\<close>

definition new_row :: "string list \<Rightarrow> nat \<Rightarrow> dataframe" where
  "new_row values n = \<lparr>columns = header, rows = [(n, take 7 values)]\<rparr>"

text \<open>The body of the \<open>try\<close> and the handler of \<open>except pd.errors.EmptyDataError\<close>.\<close>

definition add_try :: "category \<Rightarrow> string list \<Rightarrow> action" where
  "add_try c values s =
     (case read_csv (files s c) of
        Inl e \<Rightarrow> (Some e, s)
      | Inr df \<Rightarrow>
          (let s1 = s\<lparr>dfs := (dfs s)(c := Some df)\<rparr>;
               length_df = length (rows df);
               updated_df = concat_frames df (new_row values length_df)
           in save_to_csv c False (s1\<lparr>dfs := (dfs s1)(c := Some updated_df)\<rparr>)))"

definition add_except :: "category \<Rightarrow> string list \<Rightarrow> action" where
  "add_except c values s =
     save_to_csv c False (s\<lparr>dfs := (dfs s)(c := Some (new_row values 0))\<rparr>)"

text \<open>\<open>ADDPatient.button_clicked\<close>. \<open>values[i]\<close> for \<open>i\<close> in \<open>range(7)\<close> raises
  IndexError on a shorter tuple; \<open>reset_inputs\<close> clears the input widgets, which are
  arguments here.\<close>

definition ADDPatient_button_clicked :: "string list \<Rightarrow> action" where
  "ADDPatient_button_clicked values s =
     (if length values < 7 then (Some IndexError, s)
      else if check_format_personal_nr (values ! 0) then
        (case entry_category (values ! 5) of
           None \<Rightarrow> (None, s)
         | Some c \<Rightarrow> try_except (add_try c values) EmptyDataError (add_except c values) s)
      else (None, s))"

section \<open>Deleting a patient: \<open>DeletePatient\<close>\<close>

definition delete_flag :: "string \<Rightarrow> category option" where
  "delete_flag flag =
     (if flag = ''s'' then Some SAMSA
      else if flag = ''t'' then Some TES
      else if flag = ''k'' then Some KORTTID
      else None)"

text \<open>The body of the \<open>try\<close>: \<open>Index.item()\<close> raises ValueError unless exactly one
  row was selected; subscripting a frame that was never loaded (\<open>None\<close>) raises
  TypeError.\<close>

definition delete_try :: "category \<Rightarrow> string \<Rightarrow> action" where
  "delete_try c personal_nr s =
     (case dfs s c of
        None \<Rightarrow> (Some TypeError, s)
      | Some df \<Rightarrow>
          (case get_loc ''Personnummer'' (columns df) of
             None \<Rightarrow> (Some KeyError, s)
           | Some k \<Rightarrow>
               (case select_eq df k personal_nr of
                  [r] \<Rightarrow>
                    save_to_csv c False (s\<lparr>dfs := (dfs s)(c := Some (drop_labels [fst r] df))\<rparr>)
                | _ \<Rightarrow> (Some ValueError, s))))"

text \<open>\<open>DeletePatient.button_clicked\<close>.\<close>

definition DeletePatient_button_clicked :: "string \<Rightarrow> string \<Rightarrow> action" where
  "DeletePatient_button_clicked text flag s =
     (let personal_nr = hd (split_sep space text) in
      case delete_flag flag of
        None \<Rightarrow> (None, s)
      | Some c \<Rightarrow> try_except (delete_try c personal_nr) ValueError pass s)"

section \<open>Bulk update of SAMSA: \<open>UpdateSamsa\<close>\<close>

text \<open>\<open>set(xs).difference(set(ys))\<close>, listed without repetition. Python fixes no
  order for the elements of a set; the model lists them in the order of \<open>xs\<close>.\<close>

definition set_difference :: "string list \<Rightarrow> string list \<Rightarrow> string list" where
  "set_difference xs ys = remdups (filter (\<lambda>x. x \<notin> set ys) xs)"

text \<open>\<open>pd.DataFrame(data=[[item, "-", "-", "-", "-", "-", "-"]], columns=columns)\<close>,
  which raises ValueError unless there are seven column labels.\<close>

definition new_entry :: "string list \<Rightarrow> string \<Rightarrow> dataframe" where
  "new_entry cols item = \<lparr>columns = cols, rows = [(0, [item, dash, dash, dash, dash, dash, dash])]\<rparr>"

text \<open>The second half of \<open>UpdateSamsa.button_clicked\<close>, from the comment
  \<open># Adds new patients to the dataframe\<close> on.\<close>

definition add_new_patients :: "string list \<Rightarrow> string list \<Rightarrow> action" where
  "add_new_patients discharged new s =
     (case read_csv (files s SAMSA) of
        Inl e \<Rightarrow> (Some e, s)
      | Inr df \<Rightarrow>
          (let s1 = s\<lparr>dfs := (dfs s)(SAMSA := Some df)\<rparr>;
               cols = columns df
           in if new \<noteq> [] \<and> length cols \<noteq> 7 then (Some ValueError, s1)
              else
                (let df' = fold (\<lambda>item d. concat_frames d (new_entry cols item)) new df
                 in case save_to_csv SAMSA False (s1\<lparr>dfs := (dfs s1)(SAMSA := Some df')\<rparr>) of
                      (Some e, s2) \<Rightarrow> (Some e, s2)
                    | (None, s2) \<Rightarrow> (None, s2\<lparr>textbox := Some (discharged, new)\<rparr>))))"

text \<open>\<open>UpdateSamsa.button_clicked\<close>. The index labels of a frame that \<open>Data\<close> holds
  are distinct, so \<open>df.at[i, "Personnummer"]\<close> is the cell of the row labelled \<open>i\<close>.
  The text box ends with the two lists, \<open>Removed\<close> and \<open>Added\<close>.\<close>

definition UpdateSamsa_button_clicked :: "string \<Rightarrow> action" where
  "UpdateSamsa_button_clicked text s =
     (let values = split_sep (CHR '','') (filter (\<lambda>ch. ch \<noteq> space) text);
          is_correct_format = list_all (re_match pattern) values
      in if is_correct_format then
           (case dfs s SAMSA of
              None \<Rightarrow> (Some TypeError, s)
            | Some df \<Rightarrow>
                (case get_loc ''Personnummer'' (columns df) of
                   None \<Rightarrow> (Some KeyError, s)
                 | Some k \<Rightarrow>
                     (let list_of_personal_numbers = map (\<lambda>r. cell (snd r) k) (rows df);
                          discharged = set_difference list_of_personal_numbers values;
                          indexes = map fst (filter (\<lambda>r. cell (snd r) k \<in> set discharged) (rows df));
                          df1 = reset_index (drop_labels indexes df);
                          new = set_difference values list_of_personal_numbers
                      in seq (save_to_csv SAMSA False) (add_new_patients discharged new)
                           (s\<lparr>dfs := (dfs s)(SAMSA := Some df1)\<rparr>))))
         else (None, s))"

section \<open>Editing a note: \<open>UpdateNote\<close>\<close>

definition note_flag :: "string \<Rightarrow> category option" where
  "note_flag flag =
     (if flag = ''sa'' then Some SAMSA
      else if flag = ''te'' then Some TES
      else if flag = ''ko'' then Some KORTTID
      else None)"

text \<open>The body of the \<open>try\<close>; \<open>values\<close> is the pair of the combo box's text and the
  note's text.\<close>

definition note_try :: "category \<Rightarrow> string \<times> string \<Rightarrow> action" where
  "note_try c values s =
     (case dfs s c of
        None \<Rightarrow> (Some TypeError, s)
      | Some df \<Rightarrow>
          (case get_loc ''Personnummer'' (columns df) of
             None \<Rightarrow> (Some KeyError, s)
           | Some k \<Rightarrow>
               (case select_eq df k (take 11 (fst values)) of
                  [r] \<Rightarrow>
                    (let v = (if snd values \<noteq> [] then snd values else dash);
                         df' = set_at df (fst r) ''Anteckning'' v
                     in save_to_csv c False (s\<lparr>dfs := (dfs s)(c := Some df')\<rparr>))
                | _ \<Rightarrow> (Some ValueError, s))))"

text \<open>\<open>UpdateNote.button_clicked\<close>.\<close>

definition UpdateNote_button_clicked :: "string \<times> string \<Rightarrow> string \<Rightarrow> action" where
  "UpdateNote_button_clicked values flag s =
     (case note_flag flag of
        None \<Rightarrow> (None, s)
      | Some c \<Rightarrow> try_except (note_try c values) ValueError pass s)"

section \<open>Editing a cell of the grid: \<open>Display\<close>\<close>

definition areas :: "string list" where
  "areas = [''Centrum'', ''Norrmalm'', [CHR 0xD6] @ ''sterl'' @ [CHR 0xE5] @ ''nggatan 4'',
            ''Margaretagatan 9'']"

text \<open>\<open>Display.check_if_valid\<close>, with the item's text for the item. A column that no
  case matches makes the check return \<open>None\<close>.\<close>

definition check_if_valid :: "nat \<Rightarrow> string \<Rightarrow> bool option" where
  "check_if_valid column text =
     (if column = 0 then Some (check_format_personal_nr text)
      else if column = 3 then Some (text \<in> set areas)
      else if column = 4 then Some (text \<in> set [''Ja'', ''Nej''])
      else if column = 1 \<or> column = 2 \<or> column = 6 then Some (text \<noteq> [])
      else None)"

definition display_flag :: "string \<Rightarrow> category option" where
  "display_flag t =
     (if t = ''S'' then Some SAMSA
      else if t = ''T'' then Some TES
      else if t = ''K'' then Some KORTTID
      else None)"

text \<open>\<open>Display.cell_changed\<close>. \<open>not None\<close> is true in Python, so only the result
  \<open>True\<close> of the check lets the edit through. \<open>iat\<close> raises IndexError outside the
  frame; \<open>None.copy()\<close> raises AttributeError.\<close>

definition cell_changed :: "nat \<Rightarrow> nat \<Rightarrow> string \<Rightarrow> string \<Rightarrow> action" where
  "cell_changed row column text t s =
     (case check_if_valid column text of
        Some True \<Rightarrow>
          (case display_flag t of
             None \<Rightarrow> (None, s)
           | Some c \<Rightarrow>
               (case dfs s c of
                  None \<Rightarrow> (Some AttributeError, s)
                | Some df \<Rightarrow>
                    if row < length (rows df) \<and> column < length (columns df) then
                      save_to_csv c True (s\<lparr>dfs := (dfs s)(c := Some (set_iat df row column text))\<rparr>)
                    else (Some IndexError, s)))
      | _ \<Rightarrow> (None, s))"

section \<open>Runs of the program\<close>

text \<open>The slots that the event loop of Qt runs, one per user action, and the state
  after a sequence of user actions.\<close>

datatype event =
    Add_patient "string list"
  | Delete_patient string string
  | Update_samsa string
  | Update_note "string \<times> string" string
  | Edit_cell nat nat string string

fun dispatch :: "event \<Rightarrow> state \<Rightarrow> state" where
  "dispatch (Add_patient values) s = snd (ADDPatient_button_clicked values s)"
| "dispatch (Delete_patient text flag) s = snd (DeletePatient_button_clicked text flag s)"
| "dispatch (Update_samsa text) s = snd (UpdateSamsa_button_clicked text s)"
| "dispatch (Update_note values flag) s = snd (UpdateNote_button_clicked values flag s)"
| "dispatch (Edit_cell row column text t) s = snd (cell_changed row column text t s)"

text \<open>The state before the first start: no file, nothing loaded, nothing shown.\<close>

definition fresh :: state where
  "fresh = \<lparr>files = (\<lambda>_. None), dfs = (\<lambda>_. None), calls = [], patient_d = (\<lambda>_. []),
            patient_c = (\<lambda>_. []), note_c = (\<lambda>_. []), table = (\<lambda>_. []), textbox = None\<rparr>"

text \<open>The state after the first start and the entry of one SAMSA patient, with the
  first name and the note left empty.\<close>

definition one_patient :: state where
  "one_patient =
     dispatch (Add_patient (connect_button ''010101-1234'' [] ''Berg'' ''Centrum'' ''Ja'' ''SAMSA'' []))
       (create_files fresh)"

text \<open>The state after the entry of a second SAMSA patient.\<close>

definition two_patients :: state where
  "two_patients =
     dispatch (Add_patient (connect_button ''020202-2345'' ''Eva'' ''Dahl'' ''Norrmalm'' ''Nej'' ''SAMSA'' []))
       one_patient"

text \<open>The shape of what is stored: a file is empty (zero bytes) or the seven labels
  followed by lines of seven fields; a loaded frame has the seven labels and rows of seven
  cells.\<close>

definition stored_file :: "csv \<Rightarrow> bool" where
  "stored_file f = (f = [] \<or> (hd f = header \<and> list_all (\<lambda>r. length r = 7) (tl f)))"

definition stored_frame :: "dataframe \<Rightarrow> bool" where
  "stored_frame df = (columns df = header \<and> list_all (\<lambda>r. length (snd r) = 7) (rows df))"

definition stored_shape :: "state \<Rightarrow> bool" where
  "stored_shape s =
     list_all (\<lambda>c. (case files s c of None \<Rightarrow> True | Some f \<Rightarrow> stored_file f) \<and>
                    (case dfs s c of None \<Rightarrow> True | Some df \<Rightarrow> stored_frame df))
       [SAMSA, TES, KORTTID]"

section \<open>Evaluation on concrete states\<close>

lemmas store_defs =
  read_csv_def to_csv_def cell_def select_eq_def drop_labels_def reset_index_def
  reindex_row_def concat_frames_def set_at_def set_iat_def combo_items_def
  seq_def try_except_def pass_def update_sd_def update_sc_def update_table_def
  notify_observer_def when_change_has_been_made_directly_on_table_def save_to_csv_def

lemmas slot_defs =
  create_file_def create_files_def connect_button_def entry_category_def new_row_def
  add_try_def add_except_def ADDPatient_button_clicked_def delete_flag_def delete_try_def
  DeletePatient_button_clicked_def set_difference_def new_entry_def add_new_patients_def
  UpdateSamsa_button_clicked_def note_flag_def note_try_def UpdateNote_button_clicked_def
  areas_def check_if_valid_def display_flag_def cell_changed_def

lemmas text_defs =
  space_def newline_def dash_def isdigit_def re_match_def pattern_def
  check_format_personal_nr_def header_def

lemma one_patient_eq:
  "one_patient =
     \<lparr>files = (\<lambda>_. Some [header])
        (SAMSA := Some [header, [''010101-1234'', ''-'', ''Berg'', ''Centrum'', ''Ja'', ''SAMSA'', ''-'']]),
      dfs = (\<lambda>_. None)
        (SAMSA := Some \<lparr>columns = header,
           rows = [(0, [''010101-1234'', ''-'', ''Berg'', ''Centrum'', ''Ja'', ''SAMSA'', ''-''])]\<rparr>),
      calls = [(SAMSA, Sd), (SAMSA, Sc), (SAMSA, Display_table)],
      patient_d = (\<lambda>_. [])(SAMSA := [''010101-1234 - Berg'']),
      patient_c = (\<lambda>_. [])(SAMSA := [''010101-1234 - Berg'']),
      note_c = (\<lambda>_. [])(SAMSA := ''-''),
      table = (\<lambda>_. [])(SAMSA := [[''010101-1234'', ''-'', ''Berg'', ''Centrum'', ''Ja'', ''SAMSA'', ''-'']]),
      textbox = None\<rparr>"
  apply (simp add: one_patient_def fresh_def store_defs slot_defs text_defs eval_nat_numeral fun_eq_iff)
  using category.exhaust by blast

section \<open>The validator\<close>

text \<open>How the matcher runs through a block of digits, a literal and the end-of-text item;
  the validator accepts the eleven characters of the format, and the same eleven characters
  followed by one line feed, and nothing else.\<close>

lemma rx_digits:
  "rx_run (replicate n Digit @ p) (b, s) = Some r \<longleftrightarrow>
     (\<exists>ds rest. s = ds @ rest \<and> length ds = n \<and> list_all isdigit ds \<and>
        rx_run p (if n = 0 then b else False, rest) = Some r)"
proof (induction n arbitrary: b s)
  case 0
  then show ?case by simp
next
  case (Suc n)
  show ?case
  proof (cases s)
    case Nil
    then show ?thesis by simp
  next
    case (Cons c cs)
    show ?thesis
    proof (cases "isdigit c")
      case False
      then show ?thesis using Cons by (auto simp: length_Suc_conv)
    next
      case True
      have "rx_run (replicate (Suc n) Digit @ p) (b, s) = rx_run (replicate n Digit @ p) (False, cs)"
        using True Cons by simp
      also have "\<dots> = Some r \<longleftrightarrow> (\<exists>ds rest. cs = ds @ rest \<and> length ds = n \<and> list_all isdigit ds \<and>
        rx_run p (if n = 0 then False else False, rest) = Some r)"
        by (rule Suc.IH)
      also have "\<dots> \<longleftrightarrow> (\<exists>ds rest. s = ds @ rest \<and> length ds = Suc n \<and> list_all isdigit ds \<and>
        rx_run p (if Suc n = 0 then b else False, rest) = Some r)"
        using True Cons
        apply (auto simp: length_Suc_conv)
         apply (rule_tac x = "c # ds" in exI)
         apply simp
        apply (rule_tac x = "ys" in exI)
        apply simp
        done
      finally show ?thesis .
    qed
  qed
qed

lemma rx_lit:
  "rx_run (Lit x # p) (b, s) = Some r \<longleftrightarrow> (\<exists>rest. s = x # rest \<and> rx_run p (False, rest) = Some r)"
  by (cases s) auto

lemma rx_eol:
  "rx_run [Eol] (b, s) = Some r \<longleftrightarrow> (s = [] \<or> s = [newline]) \<and> r = (b, s)"
  by auto

lemma check_format_personal_nr_iff:
  "check_format_personal_nr s \<longleftrightarrow>
     (\<exists>ds1 ds2. length ds1 = 6 \<and> list_all isdigit ds1 \<and> length ds2 = 4 \<and> list_all isdigit ds2 \<and>
        (s = ds1 @ ''-'' @ ds2 \<or> s = ds1 @ ''-'' @ ds2 @ [newline]))"
proof -
  have "check_format_personal_nr s \<longleftrightarrow>
      (\<exists>r. rx_run (replicate 6 Digit @ Lit (CHR ''-'') # replicate 4 Digit @ [Eol]) (True, s) = Some r)"
    by (auto simp: check_format_personal_nr_def re_match_def pattern_def split: option.splits)
  also have "\<dots> \<longleftrightarrow> (\<exists>ds1 ds2 rest. s = ds1 @ ''-'' @ ds2 @ rest \<and> length ds1 = 6 \<and> list_all isdigit ds1 \<and>
        length ds2 = 4 \<and> list_all isdigit ds2 \<and> (rest = [] \<or> rest = [newline]))"
    unfolding rx_digits rx_lit rx_eol
    apply (intro iffI)
     apply (elim exE conjE)
     apply simp
     apply blast
    apply (elim exE conjE)
    apply (rule_tac x = "(False, rest)" in exI)
    apply (rule_tac x = ds1 in exI)
    apply (rule_tac x = "''-'' @ ds2 @ rest" in exI)
    apply simp
    done
  also have "\<dots> \<longleftrightarrow> (\<exists>ds1 ds2. length ds1 = 6 \<and> list_all isdigit ds1 \<and> length ds2 = 4 \<and> list_all isdigit ds2 \<and>
        (s = ds1 @ ''-'' @ ds2 \<or> s = ds1 @ ''-'' @ ds2 @ [newline]))" (is "?L \<longleftrightarrow> ?R")
  proof
    assume ?L
    then show ?R by auto
  next
    assume ?R
    then obtain ds1 ds2 where h: "length ds1 = 6" "list_all isdigit ds1" "length ds2 = 4"
      "list_all isdigit ds2" "s = ds1 @ ''-'' @ ds2 \<or> s = ds1 @ ''-'' @ ds2 @ [newline]"
      by blast
    from h(5) have "\<exists>rest. s = ds1 @ ''-'' @ ds2 @ rest \<and> (rest = [] \<or> rest = [newline])"
      by auto
    with h(1-4) show ?L by blast
  qed
  finally show ?thesis .
qed

text \<open>
  Claim C5. The validator is meant to accept exactly six digits, a hyphen and four
  digits, with nothing around them. The pattern ends in \<open>$\<close>, which in Python also
  matches before a final line feed: the validator accepts the eleven characters
  \<open>010101-1234\<close> followed by a line feed.
\<close>

theorem check_format_personal_nr_accepts_trailing_newline:
  "check_format_personal_nr (''010101-1234'' @ [CHR 0x0A])"
  by (simp add: text_defs eval_nat_numeral)

section \<open>What the observers do to the store\<close>

text \<open>Sequencing and exception handling keep what every step keeps.\<close>

lemma seq_snd:
  assumes "P (snd (f s))" and "\<And>s'. P s' \<Longrightarrow> P (snd (g s'))"
  shows "P (snd (seq f g s))"
proof (cases "f s")
  case (Pair e s')
  with assms show ?thesis by (cases e) (auto simp: seq_def)
qed



lemma try_except_snd:
  assumes "P (snd (f s))" and "\<And>s'. P s' \<Longrightarrow> P (snd (h s'))"
  shows "P (snd (try_except f e h s))"
proof (cases "f s")
  case (Pair x s')
  with assms show ?thesis by (cases x) (auto simp: try_except_def)
qed

lemma try_except_pass_snd: "snd (try_except f e pass s) = snd (f s)"
  by (cases "f s") (auto simp: try_except_def pass_def split: option.splits)


text \<open>An observer never writes a file; it loads the frame of its category from the file
  and is recorded in \<open>calls\<close>.\<close>

lemma update_sd_store:
  "files (snd (update_sd c s)) = files s"
  "read_csv (files s c) = Inr df \<Longrightarrow> dfs (snd (update_sd c s)) = (dfs s)(c := Some df)"
  "calls (snd (update_sd c s)) = calls s @ [(c, Sd)]"
  by (auto simp: update_sd_def Let_def split: sum.splits)

lemma update_sc_store:
  "files (snd (update_sc c s)) = files s"
  "read_csv (files s c) = Inr df \<Longrightarrow> dfs (snd (update_sc c s)) = (dfs s)(c := Some df)"
  "calls (snd (update_sc c s)) = calls s @ [(c, Sc)]"
  by (auto simp: update_sc_def Let_def split: sum.splits option.splits list.splits)

lemma update_table_store:
  "files (snd (update_table c s)) = files s"
  "read_csv (files s c) = Inr df \<Longrightarrow> dfs (snd (update_table c s)) = (dfs s)(c := Some df)"
  "calls (snd (update_table c s)) = calls s @ [(c, Display_table)]"
  by (auto simp: update_table_def Let_def split: sum.splits)

lemma update_sd_dfs:
  "dfs (snd (update_sd c s)) =
     (case read_csv (files s c) of Inl e \<Rightarrow> dfs s | Inr df \<Rightarrow> (dfs s)(c := Some df))"
  by (auto simp: update_sd_def Let_def split: sum.splits)

lemma update_sc_dfs:
  "dfs (snd (update_sc c s)) =
     (case read_csv (files s c) of Inl e \<Rightarrow> dfs s | Inr df \<Rightarrow> (dfs s)(c := Some df))"
  by (auto simp: update_sc_def Let_def split: sum.splits option.splits list.splits)

lemma update_table_dfs:
  "dfs (snd (update_table c s)) =
     (case read_csv (files s c) of Inl e \<Rightarrow> dfs s | Inr df \<Rightarrow> (dfs s)(c := Some df))"
  by (auto simp: update_table_def Let_def split: sum.splits)








lemma notify_observer_dfs:
  assumes "read_csv (files s c) = Inr df"
  shows "dfs (snd (notify_observer c s)) = (dfs s)(c := Some df)"
proof -
  let ?P = "\<lambda>s'. files s' = files s \<and> dfs s' = (dfs s)(c := Some df)"
  have "?P (snd (notify_observer c s))"
    unfolding notify_observer_def
  proof (rule seq_snd [where P = ?P], goal_cases)
    case 1 show ?case using assms by (simp add: update_sd_store)
  next
    case (2 s') 
    show ?case
    proof (rule seq_snd [where P = ?P], goal_cases)
      case 1 show ?case using 2 assms by (simp add: update_sc_store)
    next
      case (2 s'') then show ?case using assms by (simp add: update_table_store)
    qed
  qed
  then show ?thesis by simp
qed

lemma when_change_dfs:
  assumes "read_csv (files s c) = Inr df"
  shows "dfs (snd (when_change_has_been_made_directly_on_table c s)) = (dfs s)(c := Some df)"
proof -
  let ?P = "\<lambda>s'. files s' = files s \<and> dfs s' = (dfs s)(c := Some df)"
  have "?P (snd (when_change_has_been_made_directly_on_table c s))"
    unfolding when_change_has_been_made_directly_on_table_def
  proof (rule seq_snd [where P = ?P], goal_cases)
    case 1 show ?case using assms by (simp add: update_sd_store)
  next
    case (2 s') then show ?case using assms by (simp add: update_sc_store)
  qed
  then show ?thesis by simp
qed



text \<open>Saving writes the frame of the category and leaves it loaded, numbered from 0.\<close>

lemma read_csv_to_csv:
  "columns d \<noteq> [] \<Longrightarrow> read_csv (Some (to_csv d)) = Inr (reset_index d)"
  by (simp add: read_csv_def to_csv_def reset_index_def)


lemma save_to_csv_dfs:
  "dfs s c = Some d \<Longrightarrow> columns d \<noteq> [] \<Longrightarrow>
   dfs (snd (save_to_csv c b s)) = (dfs s)(c := Some (reset_index d))"
  by (simp add: save_to_csv_def Let_def notify_observer_dfs when_change_dfs read_csv_to_csv)


section \<open>Frames under the seven labels\<close>

lemma get_loc_header:
  "get_loc ''Personnummer'' header = Some 0" "get_loc ''Anteckning'' header = Some 6"
  "length header = 7"
  by (simp_all add: header_def)


lemma get_loc_nonempty: "get_loc c cols = Some k \<Longrightarrow> cols \<noteq> []"
  by (cases cols) auto

lemma length_seven:
  "length cs = 7 \<Longrightarrow> \<exists>a b c d e f g. cs = [a, b, c, d, e, f, g]"
  by (auto simp: length_Suc_conv eval_nat_numeral)

lemma reindex_row_header: "length cs = 7 \<Longrightarrow> reindex_row header header cs = cs"
  by (drule length_seven) (auto simp: reindex_row_def header_def cell_def)

lemma concat_frames_header:
  assumes "columns a = header" "columns b = header"
    and "list_all (\<lambda>r. length (snd r) = 7) (rows a)" "list_all (\<lambda>r. length (snd r) = 7) (rows b)"
  shows "concat_frames a b = \<lparr>columns = header, rows = rows a @ rows b\<rparr>"
proof -
  have "map (\<lambda>r. (fst r, reindex_row header header (snd r))) xs = xs"
    if "list_all (\<lambda>r. length (snd r) = 7) xs" for xs :: "(nat \<times> string list) list"
    using that by (induction xs) (auto simp: reindex_row_header)
  then show ?thesis using assms by (simp add: concat_frames_def)
qed



section \<open>The shape of what is stored\<close>

lemma stored_shape_iff:
  "stored_shape s \<longleftrightarrow>
     (\<forall>c. (case files s c of None \<Rightarrow> True | Some f \<Rightarrow> stored_file f) \<and>
          (case dfs s c of None \<Rightarrow> True | Some df \<Rightarrow> stored_frame df))"
proof
  assume a: "stored_shape s"
  show "\<forall>c. (case files s c of None \<Rightarrow> True | Some f \<Rightarrow> stored_file f) \<and>
          (case dfs s c of None \<Rightarrow> True | Some df \<Rightarrow> stored_frame df)"
  proof
    fix c show "(case files s c of None \<Rightarrow> True | Some f \<Rightarrow> stored_file f) \<and>
          (case dfs s c of None \<Rightarrow> True | Some df \<Rightarrow> stored_frame df)"
      using a by (cases c) (simp_all add: stored_shape_def)
  qed
qed (simp add: stored_shape_def)

lemma read_csv_stored:
  "stored_file f \<Longrightarrow> read_csv (Some f) = Inr df \<Longrightarrow> stored_frame df"
  by (cases f) (auto simp: stored_file_def read_csv_def stored_frame_def list_all_iff
      split: if_splits dest!: set_zip_rightD)

lemma to_csv_stored: "stored_frame d \<Longrightarrow> stored_file (to_csv d)"
  by (auto simp: stored_frame_def stored_file_def to_csv_def list_all_iff)

lemma stored_shape_files:
  "stored_shape s \<Longrightarrow> files s c = Some f \<Longrightarrow> stored_file f"
  by (auto simp: stored_shape_iff split: option.splits)

lemma stored_shape_dfs:
  "stored_shape s \<Longrightarrow> dfs s c = Some d \<Longrightarrow> stored_frame d"
  by (auto simp: stored_shape_iff split: option.splits)

lemma stored_shape_read:
  assumes "stored_shape s" "read_csv (files s c) = Inr df"
  shows "stored_frame df"
proof (cases "files s c")
  case None
  with assms(2) show ?thesis by (simp add: read_csv_def)
next
  case (Some f)
  with assms show ?thesis by (auto intro: read_csv_stored stored_shape_files)
qed

lemma stored_shape_set_dfs:
  "stored_shape s \<Longrightarrow> stored_frame d \<Longrightarrow> stored_shape (s\<lparr>dfs := (dfs s)(c := Some d)\<rparr>)"
  by (simp add: stored_shape_iff)

lemma stored_shape_set_files:
  "stored_shape s \<Longrightarrow> stored_file f \<Longrightarrow> stored_shape (s\<lparr>files := (files s)(c := Some f)\<rparr>)"
  by (simp add: stored_shape_iff)

lemma stored_shape_cong:
  "stored_shape s \<Longrightarrow> files s' = files s \<Longrightarrow> dfs s' = dfs s \<Longrightarrow> stored_shape s'"
  by (simp add: stored_shape_iff)

lemma stored_shape_observer:
  assumes "stored_shape s" "files s' = files s"
    and "dfs s' = (case read_csv (files s c) of Inl e \<Rightarrow> dfs s | Inr df \<Rightarrow> (dfs s)(c := Some df))"
  shows "stored_shape s'"
proof (cases "read_csv (files s c)")
  case (Inl e)
  with assms show ?thesis by (simp add: stored_shape_cong)
next
  case (Inr df)
  then have "stored_frame df" using assms(1) by (rule stored_shape_read [rotated])
  then have "stored_shape (s\<lparr>dfs := (dfs s)(c := Some df)\<rparr>)"
    using assms(1) by (simp add: stored_shape_set_dfs)
  then show ?thesis
    using assms(2,3) Inr by (auto intro: stored_shape_cong)
qed

lemma update_sd_shape: "stored_shape s \<Longrightarrow> stored_shape (snd (update_sd c s))"
  by (rule stored_shape_observer [where c = c]) (simp_all add: update_sd_store update_sd_dfs)

lemma update_sc_shape: "stored_shape s \<Longrightarrow> stored_shape (snd (update_sc c s))"
  by (rule stored_shape_observer [where c = c]) (simp_all add: update_sc_store update_sc_dfs)

lemma update_table_shape: "stored_shape s \<Longrightarrow> stored_shape (snd (update_table c s))"
  by (rule stored_shape_observer [where c = c]) (simp_all add: update_table_store update_table_dfs)

lemma save_to_csv_shape:
  assumes "stored_shape s"
  shows "stored_shape (snd (save_to_csv c b s))"
proof (cases "dfs s c")
  case None
  then show ?thesis using assms by (simp add: save_to_csv_def)
next
  case (Some d)
  let ?s1 = "s\<lparr>files := (files s)(c := Some (to_csv d))\<rparr>"
  have s1: "stored_shape ?s1"
    using assms Some by (simp add: stored_shape_set_files to_csv_stored stored_shape_dfs)
  have "stored_shape (snd (notify_observer c ?s1))"
    unfolding notify_observer_def
    by (intro seq_snd [where P = stored_shape] update_sd_shape update_sc_shape update_table_shape s1)
  moreover have "stored_shape (snd (when_change_has_been_made_directly_on_table c ?s1))"
    unfolding when_change_has_been_made_directly_on_table_def
    by (intro seq_snd [where P = stored_shape] update_sd_shape update_sc_shape s1)
  ultimately show ?thesis using Some by (simp add: save_to_csv_def Let_def)
qed

lemma save_new_frame_shape:
  "stored_shape s \<Longrightarrow> stored_frame d \<Longrightarrow>
   stored_shape (snd (save_to_csv c b (s\<lparr>dfs := (dfs s)(c := Some d)\<rparr>)))"
  by (simp add: save_to_csv_shape stored_shape_set_dfs)

lemma stored_frame_new_row: "7 \<le> length values \<Longrightarrow> stored_frame (new_row values n)"
  by (simp add: stored_frame_def new_row_def)

lemma stored_frame_concat:
  "stored_frame a \<Longrightarrow> stored_frame b \<Longrightarrow> stored_frame (concat_frames a b)"
  by (simp add: concat_frames_header stored_frame_def)

lemma stored_frame_drop_labels: "stored_frame d \<Longrightarrow> stored_frame (drop_labels ls d)"
  by (auto simp: stored_frame_def drop_labels_def list_all_iff)

lemma stored_frame_reset_index: "stored_frame d \<Longrightarrow> stored_frame (reset_index d)"
  by (auto simp: stored_frame_def reset_index_def list_all_iff dest!: set_zip_rightD)

lemma stored_frame_set_at:
  "stored_frame d \<Longrightarrow> stored_frame (set_at d l ''Anteckning'' v)"
  by (auto simp: stored_frame_def set_at_def get_loc_header list_all_iff)

lemma stored_frame_set_iat:
  "stored_frame d \<Longrightarrow> i < length (rows d) \<Longrightarrow> stored_frame (set_iat d i j v)"
  by (auto simp: stored_frame_def set_iat_def list_all_iff dest!: set_update_subset_insert [THEN subsetD])

lemma stored_frame_new_entry: "stored_frame (new_entry header item)"
  by (simp add: stored_frame_def new_entry_def)

lemma stored_frame_fold_concat:
  "stored_frame d \<Longrightarrow>
   stored_frame (fold (\<lambda>item d. concat_frames d (new_entry header item)) new d)"
  by (induction new arbitrary: d) (simp_all add: stored_frame_concat stored_frame_new_entry)

lemma add_try_shape:
  assumes "stored_shape s" "7 \<le> length values"
  shows "stored_shape (snd (add_try c values s))"
proof (cases "read_csv (files s c)")
  case (Inl e)
  then show ?thesis using assms by (simp add: add_try_def)
next
  case (Inr df)
  then have df: "stored_frame df" using assms(1) by (rule stored_shape_read [rotated])
  let ?s1 = "s\<lparr>dfs := (dfs s)(c := Some df)\<rparr>"
  have "stored_shape ?s1" using assms(1) df by (rule stored_shape_set_dfs)
  moreover have "stored_frame (concat_frames df (new_row values (length (rows df))))"
    using df assms(2) by (simp add: stored_frame_concat stored_frame_new_row)
  ultimately show ?thesis
    using Inr assms(1) by (simp add: add_try_def Let_def save_new_frame_shape)
qed

lemma add_except_shape:
  "stored_shape s \<Longrightarrow> 7 \<le> length values \<Longrightarrow> stored_shape (snd (add_except c values s))"
  by (simp add: add_except_def save_new_frame_shape stored_frame_new_row)

lemma ADDPatient_shape:
  assumes "stored_shape s"
  shows "stored_shape (snd (ADDPatient_button_clicked values s))"
proof (cases "length values < 7")
  case True
  then show ?thesis using assms by (simp add: ADDPatient_button_clicked_def)
next
  case False
  then have len: "7 \<le> length values" by simp
  have "stored_shape (snd (try_except (add_try c values) EmptyDataError (add_except c values) s))" for c
    by (rule try_except_snd [where P = stored_shape])
       (simp_all add: add_try_shape add_except_shape assms len)
  then show ?thesis
    using assms False by (simp add: ADDPatient_button_clicked_def split: option.splits)
qed

lemma delete_try_shape:
  assumes "stored_shape s"
  shows "stored_shape (snd (delete_try c v s))"
  using assms
  by (auto simp: delete_try_def split: option.splits list.splits
      intro!: save_new_frame_shape stored_frame_drop_labels intro: stored_shape_dfs)

lemma DeletePatient_shape:
  "stored_shape s \<Longrightarrow> stored_shape (snd (DeletePatient_button_clicked text flag s))"
  by (simp add: DeletePatient_button_clicked_def try_except_pass_snd delete_try_shape
      split: option.splits)

lemma note_try_shape:
  assumes "stored_shape s"
  shows "stored_shape (snd (note_try c values s))"
  using assms
  by (auto simp: note_try_def Let_def split: option.splits list.splits
      intro!: save_new_frame_shape stored_frame_set_at intro: stored_shape_dfs)

lemma UpdateNote_shape:
  "stored_shape s \<Longrightarrow> stored_shape (snd (UpdateNote_button_clicked values flag s))"
  by (simp add: UpdateNote_button_clicked_def try_except_pass_snd note_try_shape
      split: option.splits)

lemma cell_changed_shape:
  assumes "stored_shape s"
  shows "stored_shape (snd (cell_changed row column text t s))"
  using assms
  by (auto simp: cell_changed_def split: option.splits bool.splits
      intro!: save_new_frame_shape stored_frame_set_iat intro: stored_shape_dfs)

lemma add_new_patients_shape:
  assumes "stored_shape s"
  shows "stored_shape (snd (add_new_patients discharged new s))"
proof (cases "read_csv (files s SAMSA)")
  case (Inl e)
  then show ?thesis using assms by (simp add: add_new_patients_def)
next
  case (Inr df)
  then have df: "stored_frame df" using assms by (rule stored_shape_read [rotated])
  then have cols: "columns df = header" by (simp add: stored_frame_def)
  let ?s1 = "s\<lparr>dfs := (dfs s)(SAMSA := Some df)\<rparr>"
  let ?d = "fold (\<lambda>item d. concat_frames d (new_entry header item)) new df"
  have s1: "stored_shape ?s1" using assms df by (rule stored_shape_set_dfs)
  have "stored_shape (snd (save_to_csv SAMSA False (?s1\<lparr>dfs := (dfs ?s1)(SAMSA := Some ?d)\<rparr>)))"
    using s1 df by (intro save_new_frame_shape stored_frame_fold_concat)
  then have "stored_shape (snd (case save_to_csv SAMSA False (?s1\<lparr>dfs := (dfs ?s1)(SAMSA := Some ?d)\<rparr>) of
      (None, s2) \<Rightarrow> (None, s2\<lparr>textbox := Some (discharged, new)\<rparr>)
    | (Some e, s2) \<Rightarrow> (Some e, s2)))"
    by (auto split: prod.splits option.splits elim: stored_shape_cong)
  then show ?thesis
    using Inr cols s1 by (simp add: add_new_patients_def Let_def get_loc_header)
qed

lemma UpdateSamsa_shape:
  assumes "stored_shape s"
  shows "stored_shape (snd (UpdateSamsa_button_clicked text s))"
proof -
  have "stored_shape (snd (seq (save_to_csv SAMSA False) (add_new_patients discharged new)
          (s\<lparr>dfs := (dfs s)(SAMSA := Some (reset_index (drop_labels indexes df)))\<rparr>)))"
    if "dfs s SAMSA = Some df" for df discharged new indexes
    using assms that
    by (intro seq_snd [where P = stored_shape] save_new_frame_shape add_new_patients_shape
          stored_frame_reset_index stored_frame_drop_labels stored_shape_dfs)
  then show ?thesis
    using assms by (simp add: UpdateSamsa_button_clicked_def Let_def split: option.splits)
qed

lemma create_files_shape: "stored_shape s \<Longrightarrow> stored_shape (create_files s)"
  by (simp add: create_files_def create_file_def stored_shape_iff stored_file_def to_csv_def
      split: option.splits)

lemma dispatch_shape: "stored_shape s \<Longrightarrow> stored_shape (dispatch ev s)"
  by (cases ev)
     (simp_all add: ADDPatient_shape DeletePatient_shape UpdateSamsa_shape UpdateNote_shape
        cell_changed_shape)

lemma fold_dispatch_shape: "stored_shape s \<Longrightarrow> stored_shape (fold dispatch evs s)"
  by (induction evs arbitrary: s) (simp_all add: dispatch_shape)

text \<open>
  The first start followed by the entry of one patient stores a line of seven fields, the
  sixth of them the category, under a header of seven labels, the sixth of them \<open>Typ\<close>.
\<close>

theorem persisted_row_stores_category:
  "files (snd (ADDPatient_button_clicked
            (connect_button ''010101-1234'' [] ''Berg'' ''Centrum'' ''Ja'' ''SAMSA'' [])
            (create_files fresh))) SAMSA =
     Some [header, [''010101-1234'', ''-'', ''Berg'', ''Centrum'', ''Ja'', ''SAMSA'', ''-'']] \<and>
   length header = 7 \<and> header ! 5 = ''Typ''"
proof -
  have "files one_patient SAMSA = Some [header, [''010101-1234'', ''-'', ''Berg'', ''Centrum'', ''Ja'', ''SAMSA'', ''-'']]"
    by (simp add: one_patient_eq)
  then show ?thesis
    by (simp add: one_patient_def header_def)
qed

text \<open>
  Claim C1, as amended. Every line that is stored has the seven columns of the header
  (Personnummer, Foernamn, Efternamn, Omraade, Inskriven, Typ, Anteckning): the category
  is stored, as the sixth column \<open>Typ\<close>, and there is no index column. Starting from
  files of that shape (or from no file), this holds after the bootstrap and after any
  sequence of additions, deletions, bulk updates, note edits and cell edits.
\<close>

theorem stored_rows_have_seven_columns:
  assumes "stored_shape s" and "files (fold dispatch evs (create_files s)) c = Some f"
  shows "length header = 7 \<and> header ! 5 = ''Typ'' \<and>
         (f = [] \<or> (hd f = header \<and> (\<forall>r \<in> set (tl f). length r = 7)))"
proof -
  have "stored_shape (fold dispatch evs (create_files s))"
    using assms(1) by (intro fold_dispatch_shape create_files_shape)
  then have "stored_file f" using assms(2) by (rule stored_shape_files)
  then show ?thesis by (auto simp: stored_file_def list_all_iff header_def)
qed

theorem stored_rows_have_seven_columns_witness:
  "stored_shape fresh \<and>
   files (fold dispatch
            [Add_patient (connect_button ''010101-1234'' [] ''Berg'' ''Centrum'' ''Ja'' ''SAMSA'' [])]
            (create_files fresh)) SAMSA = Some [header, [''010101-1234'', ''-'', ''Berg'', ''Centrum'', ''Ja'', ''SAMSA'', ''-'']] \<and>
   (length header = 7 \<and> header ! 5 = ''Typ'' \<and>
    ([header, [''010101-1234'', ''-'', ''Berg'', ''Centrum'', ''Ja'', ''SAMSA'', ''-'']] = [] \<or>
     (hd [header, [''010101-1234'', ''-'', ''Berg'', ''Centrum'', ''Ja'', ''SAMSA'', ''-'']] = header \<and> (\<forall>r \<in> set (tl [header, [''010101-1234'', ''-'', ''Berg'', ''Centrum'', ''Ja'', ''SAMSA'', ''-'']]). length r = 7))))"
proof -
  have a: "stored_shape fresh"
    by (simp add: stored_shape_def fresh_def)
  have "files one_patient SAMSA = Some [header, [''010101-1234'', ''-'', ''Berg'', ''Centrum'', ''Ja'', ''SAMSA'', ''-'']]"
    by (simp add: one_patient_eq)
  then have b: "files (fold dispatch
            [Add_patient (connect_button ''010101-1234'' [] ''Berg'' ''Centrum'' ''Ja'' ''SAMSA'' [])]
            (create_files fresh)) SAMSA = Some [header, [''010101-1234'', ''-'', ''Berg'', ''Centrum'', ''Ja'', ''SAMSA'', ''-'']]"
    by (simp add: one_patient_def)
  from stored_rows_have_seven_columns [OF a b] show ?thesis
    using a b by - (intro conjI; (elim conjE)?; assumption)
qed

section \<open>Adding a patient\<close>




section \<open>Deleting a patient\<close>

lemma filter_single_unique:
  assumes "filter P xs = [r]" and "x \<in> set xs" and "P x"
  shows "x = r"
proof -
  have "x \<in> set (filter P xs)" using assms(2,3) by simp
  then show ?thesis unfolding assms(1) by simp
qed

lemma select_eq_empty:
  "select_eq d k v = [] \<longleftrightarrow> (\<forall>cs \<in> set (map snd (rows d)). cell cs k \<noteq> v)"
  by (auto simp: select_eq_def filter_empty_conv)

lemma rows_reset_index: "map snd (rows (reset_index d)) = map snd (rows d)"
  by (simp add: reset_index_def)

lemma select_eq_reset_index:
  "select_eq (reset_index d) k v = [] \<longleftrightarrow> select_eq d k v = []"
  by (simp only: select_eq_empty rows_reset_index)

lemma select_eq_drop_single:
  assumes "select_eq d k v = [r]"
  shows "select_eq (drop_labels [fst r] d) k v = []"
proof -
  have "\<And>x. x \<in> set (rows d) \<Longrightarrow> cell (snd x) k = v \<Longrightarrow> x = r"
    using assms unfolding select_eq_def by (rule filter_single_unique)
  then show ?thesis
    by (auto simp: select_eq_def drop_labels_def filter_empty_conv)
qed

lemma delete_try_unmatched:
  assumes "dfs s c = Some df" "get_loc ''Personnummer'' (columns df) = Some k"
    and "length (select_eq df k v) \<noteq> 1"
  shows "delete_try c v s = (Some ValueError, s)"
  using assms by (auto simp: delete_try_def split: list.splits)

text \<open>
  Claim C8. When the loaded data set of the category has no record, or more than one
  record, with the personal number, the deletion changes nothing (frames, files, observer
  views) and ends without an exception. Hence a deletion run twice changes nothing the
  second time.
\<close>

theorem delete_without_unique_match_is_noop:
  assumes "delete_flag flag = Some c" "dfs s c = Some df"
    and "get_loc ''Personnummer'' (columns df) = Some k"
  shows "(length (select_eq df k (hd (split_sep space text))) \<noteq> 1 \<longrightarrow>
            DeletePatient_button_clicked text flag s = (None, s)) \<and>
         DeletePatient_button_clicked text flag (snd (DeletePatient_button_clicked text flag s)) =
           (None, snd (DeletePatient_button_clicked text flag s))"
proof -
  let ?v = "hd (split_sep space text)"
  have noop: "DeletePatient_button_clicked text flag s' = (None, s')"
    if "dfs s' c = Some d" "get_loc ''Personnummer'' (columns d) = Some k"
       "length (select_eq d k ?v) \<noteq> 1" for s' d
    using that assms(1) delete_try_unmatched [OF that]
    by (simp add: DeletePatient_button_clicked_def try_except_def pass_def)
  show ?thesis
  proof (cases "length (select_eq df k ?v) = 1")
    case False
    then have "DeletePatient_button_clicked text flag s = (None, s)"
      using noop assms by blast
    then show ?thesis by simp
  next
    case True
    then obtain r where r: "select_eq df k ?v = [r]"
      by (cases "select_eq df k ?v") auto
    let ?d = "drop_labels [fst r] df"
    let ?s0 = "s\<lparr>dfs := (dfs s)(c := Some ?d)\<rparr>"
    let ?s1 = "snd (DeletePatient_button_clicked text flag s)"
    have cols: "columns ?d = columns df" by (simp add: drop_labels_def)
    have try_eq: "delete_try c ?v s = save_to_csv c False ?s0"
      using assms r by (simp add: delete_try_def)
    have "snd (try_except (delete_try c ?v) ValueError pass s) = snd (save_to_csv c False ?s0)"
      by (cases "save_to_csv c False ?s0") (auto simp: try_except_def try_eq pass_def split: option.splits)
    then have s1: "?s1 = snd (save_to_csv c False ?s0)"
      using assms(1) by (simp add: DeletePatient_button_clicked_def)
    have "dfs ?s1 c = Some (reset_index ?d)"
      using save_to_csv_dfs [of ?s0 c ?d False] get_loc_nonempty [OF assms(3)] cols
      by (simp add: s1)
    moreover have "columns (reset_index ?d) = columns df"
      by (simp add: reset_index_def cols)
    moreover have "select_eq (reset_index ?d) k ?v = []"
      using select_eq_drop_single [OF r] by (simp add: select_eq_reset_index)
    ultimately have "DeletePatient_button_clicked text flag ?s1 = (None, ?s1)"
      using noop [of ?s1 "reset_index ?d"] assms(3) by simp
    then show ?thesis using True by simp
  qed
qed

theorem delete_without_unique_match_is_noop_witness:
  "delete_flag ''s'' = Some SAMSA \<and>
   dfs one_patient SAMSA = Some \<lparr>columns = header, rows = [(0, [''010101-1234'', ''-'', ''Berg'', ''Centrum'', ''Ja'', ''SAMSA'', ''-''])]\<rparr> \<and>
   get_loc ''Personnummer'' (columns \<lparr>columns = header, rows = [(0, [''010101-1234'', ''-'', ''Berg'', ''Centrum'', ''Ja'', ''SAMSA'', ''-''])]\<rparr>) = Some 0 \<and>
   length (select_eq \<lparr>columns = header, rows = [(0, [''010101-1234'', ''-'', ''Berg'', ''Centrum'', ''Ja'', ''SAMSA'', ''-''])]\<rparr> 0 (hd (split_sep space ''999999-0000 - Berg''))) \<noteq> 1 \<and>
   DeletePatient_button_clicked ''999999-0000 - Berg'' ''s'' one_patient = (None, one_patient) \<and>
   files (snd (DeletePatient_button_clicked ''010101-1234 - Berg'' ''s'' one_patient)) SAMSA = Some [header] \<and>
   DeletePatient_button_clicked ''010101-1234 - Berg'' ''s''
       (snd (DeletePatient_button_clicked ''010101-1234 - Berg'' ''s'' one_patient)) =
     (None, snd (DeletePatient_button_clicked ''010101-1234 - Berg'' ''s'' one_patient))"
proof -
  let ?df = "\<lparr>columns = header, rows = [(0, [''010101-1234'', ''-'', ''Berg'', ''Centrum'', ''Ja'', ''SAMSA'', ''-''])]\<rparr>"
  have a: "delete_flag ''s'' = Some SAMSA"
    by (simp add: delete_flag_def)
  have b: "dfs one_patient SAMSA = Some ?df"
    by (simp add: one_patient_eq)
  have c: "get_loc ''Personnummer'' (columns ?df) = Some 0"
    by (simp add: get_loc_header)
  have d: "length (select_eq ?df 0 (hd (split_sep space ''999999-0000 - Berg''))) \<noteq> 1"
    by (simp add: select_eq_def cell_def space_def)
  have e: "files (snd (DeletePatient_button_clicked ''010101-1234 - Berg'' ''s'' one_patient)) SAMSA =
      Some [header]"
    by (simp add: one_patient_eq store_defs slot_defs text_defs)
  have f: "DeletePatient_button_clicked ''999999-0000 - Berg'' ''s'' one_patient = (None, one_patient)"
    by (rule mp [OF conjunct1 [OF delete_without_unique_match_is_noop [OF a b c]] d])
  have g: "DeletePatient_button_clicked ''010101-1234 - Berg'' ''s''
       (snd (DeletePatient_button_clicked ''010101-1234 - Berg'' ''s'' one_patient)) =
     (None, snd (DeletePatient_button_clicked ''010101-1234 - Berg'' ''s'' one_patient))"
    by (rule conjunct2 [OF delete_without_unique_match_is_noop [OF a b c]])
  show ?thesis
    using a b c d f e g by - (intro conjI; assumption)
qed

section \<open>Editing a note\<close>




section \<open>Edits of the grid that are discarded\<close>



text \<open>
  Claim C10. For a column index outside 0, 1, 2, 3, 4 and 6 (column 5, the hidden
  category column, among them) the check matches no case and returns \<open>None\<close>, and the
  edit is discarded whatever its value: the state is as before and no observer is
  notified.
\<close>

theorem unchecked_column_edit_is_discarded:
  "column \<notin> {0, 1, 2, 3, 4, 6} \<Longrightarrow>
   check_if_valid column text = None \<and> cell_changed row column text t s = (None, s)"
  by (simp add: cell_changed_def check_if_valid_def)

theorem unchecked_column_edit_is_discarded_witness:
  "(5::nat) \<notin> {0, 1, 2, 3, 4, 6} \<and> check_if_valid 5 ''TES'' = None \<and>
   cell_changed 0 5 ''TES'' ''S'' one_patient = (None, one_patient)"
  using unchecked_column_edit_is_discarded [of 5 "''TES''" 0 "''S''" one_patient]
  by simp

section \<open>The bulk update when no listed patient is in the data set\<close>

text \<open>
  Claim C6. The bulk update is meant to remove the patients that are not in the list, add
  a placeholder for each listed patient that is new, and report both lists. With the
  single patient 010101-1234 stored and the list \<open>030303-3456\<close>, the removal empties
  the data set, the note view (\<open>update_sc\<close>) raises ValueError on the empty data set
  while the first save notifies it, and nothing catches it: the file is left with its
  header alone, nothing is added and nothing is reported.
\<close>

theorem bulk_update_stops_after_removal:
  "fst (UpdateSamsa_button_clicked ''030303-3456'' one_patient) = Some ValueError \<and>
   files (snd (UpdateSamsa_button_clicked ''030303-3456'' one_patient)) SAMSA = Some [header] \<and>
   textbox (snd (UpdateSamsa_button_clicked ''030303-3456'' one_patient)) = None"
  by (simp add: one_patient_eq store_defs slot_defs text_defs eval_nat_numeral)

text \<open>
  Claim C7. A second bulk update with the same list is meant to report two empty lists
  and to change nothing. After the run above, the second run raises the same ValueError
  on the empty data set before it adds or reports anything: there is still no report, and
  the listed patient is still not stored.
\<close>

theorem bulk_update_twice_still_stops:
  "fst (UpdateSamsa_button_clicked ''030303-3456''
          (snd (UpdateSamsa_button_clicked ''030303-3456'' one_patient))) = Some ValueError \<and>
   files (snd (UpdateSamsa_button_clicked ''030303-3456''
          (snd (UpdateSamsa_button_clicked ''030303-3456'' one_patient)))) SAMSA = Some [header] \<and>
   textbox (snd (UpdateSamsa_button_clicked ''030303-3456''
          (snd (UpdateSamsa_button_clicked ''030303-3456'' one_patient)))) = None"
  by (simp add: one_patient_eq store_defs slot_defs text_defs eval_nat_numeral)

text \<open>
  When a listed patient is already stored and stays first in the data set, the bulk update
  does what was intended: with 010101-1234 and 020202-2345 stored and the list
  \<open>020202-2345, 030303-3456\<close>, the first is removed, a placeholder for 030303-3456 is
  added, and both lists are reported.
\<close>

lemma bulk_update_with_a_common_patient:
  "fst (UpdateSamsa_button_clicked ''020202-2345, 030303-3456'' two_patients) = None \<and>
   textbox (snd (UpdateSamsa_button_clicked ''020202-2345, 030303-3456'' two_patients)) =
     Some ([''010101-1234''], [''030303-3456'']) \<and>
   files (snd (UpdateSamsa_button_clicked ''020202-2345, 030303-3456'' two_patients)) SAMSA =
     Some [header, [''020202-2345'', ''Eva'', ''Dahl'', ''Norrmalm'', ''Nej'', ''SAMSA'', ''-''],
           [''030303-3456'', ''-'', ''-'', ''-'', ''-'', ''-'', ''-'']]"
  by (simp add: two_patients_def one_patient_eq store_defs slot_defs text_defs eval_nat_numeral Let_def)

end
